theory Spec2Isabelle
  imports Main
begin

section \<open>Values of the driver interface\<close>

text \<open>
  The package \<^verbatim>\<open>sq\<close> (file \<^verbatim>\<open>sq.go\<close>) is a thin layer over the pgx driver. The driver is
  external: it is modelled by the answers it gives, and every call that reaches it is
  recorded in a trace, so that "the driver was (not) contacted" and "commit was issued"
  are statements about the trace.
\<close>

text \<open>
  \<^verbatim>\<open>*pgconn.PgError\<close>: the database error marker. Only the fields the package reads
  (\<^verbatim>\<open>Code\<close>) and the ones that identify the value are kept.
\<close>

record PgError =
  Severity :: string
  Code :: string
  Message :: string

text \<open>
  A non-nil Go \<^verbatim>\<open>error\<close>; the nil interface value is \<open>None :: error option\<close>.
  \<^item> \<^verbatim>\<open>PgErrorPtr p\<close> is an interface value of dynamic type \<^verbatim>\<open>*pgconn.PgError\<close>; \<open>p = None\<close>
    is the nil pointer of that type (the interface value itself is not nil).
    \<^verbatim>\<open>*pgconn.PgError\<close> has neither an \<^verbatim>\<open>Unwrap\<close> nor an \<^verbatim>\<open>As\<close> method.
  \<^item> \<^verbatim>\<open>ErrorString\<close> is an error with neither method (\<^verbatim>\<open>errors.New\<close>).
  \<^item> \<^verbatim>\<open>WrapError msg e\<close> is an error whose \<^verbatim>\<open>Unwrap() error\<close> returns \<open>e\<close> (\<^verbatim>\<open>fmt.Errorf\<close>
    with one \<^verbatim>\<open>%w\<close>).
  \<^item> \<^verbatim>\<open>JoinError es\<close> is an error whose \<^verbatim>\<open>Unwrap() []error\<close> returns \<open>es\<close> (\<^verbatim>\<open>errors.Join\<close>,
    \<^verbatim>\<open>fmt.Errorf\<close> with several \<^verbatim>\<open>%w\<close>).
  \<^item> \<^verbatim>\<open>CustomError name a es\<close> is an error of a type of the caller's that has an \<^verbatim>\<open>As\<close>
    method. \<open>a\<close> is what that method does with a target of type \<^verbatim>\<open>**pgconn.PgError\<close>:
    \<open>None\<close>, it returns false; \<open>Some p\<close>, it returns true, having stored \<open>p\<close> in the
    target (\<open>Some None\<close> also stands for returning true and storing nothing: the target
    keeps its nil). \<open>es\<close> is what its \<^verbatim>\<open>Unwrap\<close> returns: nothing, one error or several.
  A nil element of an \<^verbatim>\<open>Unwrap() []error\<close> is skipped by \<^verbatim>\<open>errors.As\<close> and is left out.
\<close>

datatype error =
    PgErrorPtr "PgError option"
  | ErrorString string
  | WrapError string error
  | JoinError "error list"
  | CustomError string "PgError option option" "error list"

text \<open>Statement arguments and scanned column values (\<^verbatim>\<open>interface{}\<close>).\<close>

datatype val = NullV | IntV int | StrV string | BoolV bool

text \<open>\<^verbatim>\<open>pgx.TxOptions\<close>; \<^verbatim>\<open>NoIsoLevel\<close> etc. are the zero values of the fields.\<close>

datatype TxIsoLevel = NoIsoLevel | Serializable | RepeatableRead | ReadCommitted | ReadUncommitted

datatype TxAccessMode = NoAccessMode | ReadWrite | ReadOnly

datatype TxDeferrableMode = NoDeferrableMode | Deferrable | NotDeferrable

record TxOptions =
  IsoLevel :: TxIsoLevel
  AccessMode :: TxAccessMode
  DeferrableMode :: TxDeferrableMode

text \<open>
  The driver's objects are opaque: a transaction, a cursor and a row are known by an
  identifier only.
\<close>

datatype pgx_Tx = pgx_Tx nat

datatype pgx_Rows = pgx_Rows nat

datatype pgx_Row = pgx_Row nat

text \<open>\<^verbatim>\<open>type Result = pgconn.CommandTag\<close>, a byte slice; \<open>None\<close> is the nil slice.\<close>

type_synonym Result = "string option"

text \<open>
  Scan targets are pointers (\<^verbatim>\<open>...interface{}\<close>): addresses into a store of target
  slots.
\<close>

type_synonym addr = nat

type_synonym store = "addr \<rightharpoonup> val"

section \<open>The driver and its trace\<close>

datatype event =
    EvBeginTx TxOptions
  | EvExec pgx_Tx string "val list"
  | EvQuery pgx_Tx string "val list"
  | EvQueryRow pgx_Tx string "val list"
  | EvCommit pgx_Tx
  | EvRollback pgx_Tx
  | EvScan pgx_Row "addr list"

type_synonym trace = "event list"

text \<open>
  What the driver answers to a call, given every call made so far. A Go call returns all
  its results, so \<^verbatim>\<open>Query\<close> answers a pair of a (possibly nil) \<^verbatim>\<open>pgx.Rows\<close> and a
  (possibly nil) error, with no relation between the two imposed here.
\<close>

record driver =
  BeginTx_answer :: "trace \<Rightarrow> TxOptions \<Rightarrow> pgx_Tx \<times> error option"
  Exec_answer :: "trace \<Rightarrow> pgx_Tx \<Rightarrow> string \<Rightarrow> val list \<Rightarrow> Result \<times> error option"
  Query_answer :: "trace \<Rightarrow> pgx_Tx \<Rightarrow> string \<Rightarrow> val list \<Rightarrow> pgx_Rows option \<times> error option"
  QueryRow_answer :: "trace \<Rightarrow> pgx_Tx \<Rightarrow> string \<Rightarrow> val list \<Rightarrow> pgx_Row option"
  Commit_answer :: "trace \<Rightarrow> pgx_Tx \<Rightarrow> error option"
  Rollback_answer :: "trace \<Rightarrow> pgx_Tx \<Rightarrow> error option"
  Scan_answer :: "trace \<Rightarrow> pgx_Row \<Rightarrow> addr list \<Rightarrow> store \<Rightarrow> store \<times> error option"

text \<open>The calls into the driver: each returns the driver's answer and extends the trace.\<close>

definition pool_BeginTx :: "driver \<Rightarrow> TxOptions \<Rightarrow> trace \<Rightarrow> (pgx_Tx \<times> error option) \<times> trace" where
  "pool_BeginTx d opts w = (BeginTx_answer d w opts, w @ [EvBeginTx opts])"

definition pgx_Exec :: "driver \<Rightarrow> pgx_Tx \<Rightarrow> string \<Rightarrow> val list \<Rightarrow> trace \<Rightarrow> (Result \<times> error option) \<times> trace" where
  "pgx_Exec d t sql args w = (Exec_answer d w t sql args, w @ [EvExec t sql args])"

definition pgx_Query :: "driver \<Rightarrow> pgx_Tx \<Rightarrow> string \<Rightarrow> val list \<Rightarrow> trace \<Rightarrow> (pgx_Rows option \<times> error option) \<times> trace" where
  "pgx_Query d t sql args w = (Query_answer d w t sql args, w @ [EvQuery t sql args])"

definition pgx_QueryRow :: "driver \<Rightarrow> pgx_Tx \<Rightarrow> string \<Rightarrow> val list \<Rightarrow> trace \<Rightarrow> pgx_Row option \<times> trace" where
  "pgx_QueryRow d t sql args w = (QueryRow_answer d w t sql args, w @ [EvQueryRow t sql args])"

definition pgx_Commit :: "driver \<Rightarrow> pgx_Tx \<Rightarrow> trace \<Rightarrow> error option \<times> trace" where
  "pgx_Commit d t w = (Commit_answer d w t, w @ [EvCommit t])"

definition pgx_Rollback :: "driver \<Rightarrow> pgx_Tx \<Rightarrow> trace \<Rightarrow> error option \<times> trace" where
  "pgx_Rollback d t w = (Rollback_answer d w t, w @ [EvRollback t])"

definition pgx_Row_Scan :: "driver \<Rightarrow> pgx_Row \<Rightarrow> addr list \<Rightarrow> store \<times> trace \<Rightarrow> error option \<times> (store \<times> trace)" where
  "pgx_Row_Scan d r targets s =
     (case s of (st, w) \<Rightarrow>
        (case Scan_answer d w r targets st of (st', e) \<Rightarrow> (e, (st', w @ [EvScan r targets]))))"

section \<open>The transaction handle (\<^verbatim>\<open>pgxTx\<close>)\<close>

text \<open>
  \<^verbatim>\<open>StatementBuilder\<close> is an interface of another file of the package; the handle calls
  only its \<^verbatim>\<open>ToSQL() (string, []interface{}, error)\<close>, so a builder is what that call
  returns.
\<close>

datatype StatementBuilder = StatementBuilder (ToSQL: "string \<times> val list \<times> error option")

text \<open>\<^verbatim>\<open>type pgxTx struct { tx pgx.Tx }\<close>\<close>

datatype pgxTx = pgxTx (tx: pgx_Tx)

text \<open>\<^verbatim>\<open>type rowError struct { err error }\<close>\<close>

datatype rowError = rowError (err: "error option")

text \<open>
  A non-nil value of the interface \<^verbatim>\<open>Row\<close>: the package's \<^verbatim>\<open>rowError\<close> or a row of the
  driver. The nil interface value is \<open>None :: Row option\<close>.
\<close>

datatype Row = RowError rowError | PgxRow pgx_Row

text \<open>
  The \<^verbatim>\<open>context.Context\<close> every method takes is only handed on to the driver; what it
  causes there is part of the driver's answers.

  \<^verbatim>\<open>replacePlaceholders\<close> is defined in another file of the package. The handle's
  operations take it as the parameter \<open>translate\<close>: a function from the builder's SQL to
  the pair \<^verbatim>\<open>(string, error)\<close> it returns.
\<close>

type_synonym translator = "string \<Rightarrow> string \<times> error option"

definition Exec :: "translator \<Rightarrow> driver \<Rightarrow> pgxTx \<Rightarrow> StatementBuilder \<Rightarrow> trace \<Rightarrow> (Result \<times> error option) \<times> trace" where
  "Exec translate d h qb w =
     (case ToSQL qb of (sql, args, e) \<Rightarrow>
        (case e of
           Some e1 \<Rightarrow> ((None, Some e1), w)
         | None \<Rightarrow>
             (case translate sql of (sql', e') \<Rightarrow>
                (case e' of
                   Some e2 \<Rightarrow> ((None, Some e2), w)
                 | None \<Rightarrow> pgx_Exec d (tx h) sql' args w))))"

definition Query :: "translator \<Rightarrow> driver \<Rightarrow> pgxTx \<Rightarrow> StatementBuilder \<Rightarrow> trace \<Rightarrow> (pgx_Rows option \<times> error option) \<times> trace" where
  "Query translate d h qb w =
     (case ToSQL qb of (sql, args, e) \<Rightarrow>
        (case e of
           Some e1 \<Rightarrow> ((None, Some e1), w)
         | None \<Rightarrow>
             (case translate sql of (sql', e') \<Rightarrow>
                (case e' of
                   Some e2 \<Rightarrow> ((None, Some e2), w)
                 | None \<Rightarrow> pgx_Query d (tx h) sql' args w))))"

definition QueryRow :: "translator \<Rightarrow> driver \<Rightarrow> pgxTx \<Rightarrow> StatementBuilder \<Rightarrow> trace \<Rightarrow> Row option \<times> trace" where
  "QueryRow translate d h qb w =
     (case ToSQL qb of (sql, args, e) \<Rightarrow>
        (case e of
           Some e1 \<Rightarrow> (Some (RowError (rowError (Some e1))), w)
         | None \<Rightarrow>
             (case translate sql of (sql', e') \<Rightarrow>
                (case e' of
                   Some e2 \<Rightarrow> (Some (RowError (rowError (Some e2))), w)
                 | None \<Rightarrow>
                     (case pgx_QueryRow d (tx h) sql' args w of
                        (r, w') \<Rightarrow> (map_option PgxRow r, w'))))))"

text \<open>
  \<^verbatim>\<open>func (e rowError) Scan(...interface{}) error { return e.err }\<close>: the targets are not
  even named.
\<close>

definition rowError_Scan :: "rowError \<Rightarrow> addr list \<Rightarrow> error option" where
  "rowError_Scan e targets = err e"

text \<open>
  \<^verbatim>\<open>Scan\<close> called on a \<^verbatim>\<open>Row\<close> value: the method of the dynamic type runs. Only the
  driver's method can touch the target slots and the driver.
\<close>

fun Scan :: "driver \<Rightarrow> Row \<Rightarrow> addr list \<Rightarrow> store \<times> trace \<Rightarrow> error option \<times> (store \<times> trace)" where
  "Scan d (RowError e) targets s = (rowError_Scan e targets, s)"
| "Scan d (PgxRow r) targets s = pgx_Row_Scan d r targets s"

text \<open>Several calls of \<^verbatim>\<open>Scan\<close> on the same row, one per list of targets, in order.\<close>

fun Scan_each :: "driver \<Rightarrow> Row \<Rightarrow> addr list list \<Rightarrow> store \<times> trace \<Rightarrow> error option list \<times> (store \<times> trace)" where
  "Scan_each d r [] s = ([], s)"
| "Scan_each d r (targets # rest) s =
     (case Scan d r targets s of (e, s') \<Rightarrow>
        (case Scan_each d r rest s' of (es, s'') \<Rightarrow> (e # es, s'')))"

section \<open>The unit of work\<close>

text \<open>
  \<^verbatim>\<open>fn func(tx Tx) error\<close> can reach the transaction only through the interface \<^verbatim>\<open>Tx\<close>
  (\<^verbatim>\<open>Exec\<close>, \<^verbatim>\<open>Query\<close>, \<^verbatim>\<open>QueryRow\<close>) and the rows it gets from it. A run of \<open>fn\<close> that
  ends is a tree: it returns an error value, panics with a value, or calls the handle
  and goes on with what the call returned.
\<close>

datatype unit_of_work =
    Return "error option"
  | Panic val
  | CallExec StatementBuilder "Result \<times> error option \<Rightarrow> unit_of_work"
  | CallQuery StatementBuilder "pgx_Rows option \<times> error option \<Rightarrow> unit_of_work"
  | CallQueryRow StatementBuilder "Row option \<Rightarrow> unit_of_work"
  | CallScan Row "addr list" "error option \<Rightarrow> unit_of_work"

text \<open>How a Go call ends: it returns, or a panic leaves it.\<close>

datatype 'a outcome = Returned 'a | Panicked val

primrec run :: "translator \<Rightarrow> driver \<Rightarrow> pgxTx \<Rightarrow> unit_of_work \<Rightarrow> store \<times> trace \<Rightarrow> error option outcome \<times> (store \<times> trace)" where
  "run translate d h (Return e) = (\<lambda>s. (Returned e, s))"
| "run translate d h (Panic v) = (\<lambda>s. (Panicked v, s))"
| "run translate d h (CallExec qb k) =
     (\<lambda>s. case Exec translate d h qb (snd s) of (r, w') \<Rightarrow> run translate d h (k r) (fst s, w'))"
| "run translate d h (CallQuery qb k) =
     (\<lambda>s. case Query translate d h qb (snd s) of (r, w') \<Rightarrow> run translate d h (k r) (fst s, w'))"
| "run translate d h (CallQueryRow qb k) =
     (\<lambda>s. case QueryRow translate d h qb (snd s) of (r, w') \<Rightarrow> run translate d h (k r) (fst s, w'))"
| "run translate d h (CallScan r targets k) =
     (\<lambda>s. case Scan d r targets s of (e, s') \<Rightarrow> run translate d h (k e) s')"

section \<open>The transaction executor\<close>

text \<open>
  Modelled from the spec: \<^verbatim>\<open>txExecute\<close>, which \<^verbatim>\<open>pgxPool.Tx\<close> calls, is in a file of the
  package that is not among the sources. Section 4.4 of the spec, steps 3 and 4: invoke
  \<open>fn\<close> with the handle; if it returns a non-nil error, attempt rollback and return the
  rollback error if rollback fails, else the error of \<open>fn\<close>; if it returns nil, attempt
  commit and return the commit error if commit fails, else nil; if it panics, roll back
  and re-raise the panic after the cleanup, whatever the rollback answered.
\<close>

definition txExecute :: "translator \<Rightarrow> driver \<Rightarrow> pgxTx \<Rightarrow> unit_of_work \<Rightarrow> store \<times> trace \<Rightarrow> error option outcome \<times> (store \<times> trace)" where
  "txExecute translate d h fn s =
     (case run translate d h fn s of (out, (st, w)) \<Rightarrow>
        (case out of
           Returned (Some e1) \<Rightarrow>
             (case pgx_Rollback d (tx h) w of (re, w') \<Rightarrow>
                (case re of
                   Some e2 \<Rightarrow> (Returned (Some e2), (st, w'))
                 | None \<Rightarrow> (Returned (Some e1), (st, w'))))
         | Returned None \<Rightarrow>
             (case pgx_Commit d (tx h) w of (ce, w') \<Rightarrow>
                (case ce of
                   Some e3 \<Rightarrow> (Returned (Some e3), (st, w'))
                 | None \<Rightarrow> (Returned None, (st, w'))))
         | Panicked v \<Rightarrow>
             (case pgx_Rollback d (tx h) w of (re, w') \<Rightarrow> (Panicked v, (st, w')))))"

section \<open>The pool wrapper (\<^verbatim>\<open>pgxPool\<close>)\<close>

text \<open>
  The options \<^verbatim>\<open>pgxPool.Tx\<close> passes to \<^verbatim>\<open>BeginTx\<close>:
  \<^verbatim>\<open>pgx.TxOptions{IsoLevel: pgx.Serializable}\<close>, the other fields at their zero values.
\<close>

definition Tx_options :: TxOptions where
  "Tx_options = \<lparr>IsoLevel = Serializable, AccessMode = NoAccessMode, DeferrableMode = NoDeferrableMode\<rparr>"

text \<open>
  \<^verbatim>\<open>func (p *pgxPool) Tx(ctx, fn) error\<close>. The pool \<^verbatim>\<open>p.pool\<close> is the driver \<open>d\<close>; the
  context is only handed on to the driver and is part of what the driver answers.
  \<^verbatim>\<open>txExecute\<close> is the parameter \<open>execute\<close>, so that what \<^verbatim>\<open>Tx\<close> does itself holds for
  any executor.
\<close>

definition Tx :: "(pgxTx \<Rightarrow> unit_of_work \<Rightarrow> store \<times> trace \<Rightarrow> error option outcome \<times> (store \<times> trace)) \<Rightarrow> driver \<Rightarrow> unit_of_work \<Rightarrow> store \<times> trace \<Rightarrow> error option outcome \<times> (store \<times> trace)" where
  "Tx execute d fn s =
     (case s of (st, w) \<Rightarrow>
        (case pool_BeginTx d Tx_options w of ((pgxtx, e), w') \<Rightarrow>
           (case e of
              Some e0 \<Rightarrow> (Returned (Some e0), (st, w'))
            | None \<Rightarrow> execute (pgxTx pgxtx) fn (st, w'))))"

text \<open>The events that end a transaction \<open>t\<close>, and the events a call added to the trace.\<close>

definition commits :: "pgx_Tx \<Rightarrow> trace \<Rightarrow> nat" where
  "commits t w = count_list w (EvCommit t)"

definition rollbacks :: "pgx_Tx \<Rightarrow> trace \<Rightarrow> nat" where
  "rollbacks t w = count_list w (EvRollback t)"

definition added :: "trace \<Rightarrow> trace \<Rightarrow> trace" where
  "added w w' = drop (length w) w'"

section \<open>The error-code predicate\<close>

text \<open>
  \<^verbatim>\<open>errors.As(err, &e)\<close> with \<^verbatim>\<open>var e *pgconn.PgError\<close>, as the standard library has it.
  At an error of the tree it asks, in this order: is its dynamic type
  \<^verbatim>\<open>*pgconn.PgError\<close>? then it stores the error in \<open>e\<close> and returns true; has it an \<^verbatim>\<open>As\<close>
  method that returns true on the target? then it returns true; has it an
  \<^verbatim>\<open>Unwrap() error\<close>? then it goes on with what that returns; has it an
  \<^verbatim>\<open>Unwrap() []error\<close>? then it searches each of the errors in order, depth first, and
  returns true at the first success; otherwise it returns false. \<open>None\<close>: it returned
  false; \<open>Some p\<close>: it returned true with \<open>e = p\<close> (\<open>p\<close> may be the nil pointer).
\<close>

fun errors_As :: "error \<Rightarrow> PgError option option"
  and errors_As_each :: "error list \<Rightarrow> PgError option option" where
  "errors_As (PgErrorPtr p) = Some p"
| "errors_As (ErrorString s) = None"
| "errors_As (WrapError s e) = errors_As e"
| "errors_As (JoinError es) = errors_As_each es"
| "errors_As (CustomError s a es) = (case a of Some p \<Rightarrow> Some p | None \<Rightarrow> errors_As_each es)"
| "errors_As_each [] = None"
| "errors_As_each (e # es) = (case errors_As e of Some p \<Rightarrow> Some p | None \<Rightarrow> errors_As_each es)"

definition IsError :: "error option \<Rightarrow> string \<Rightarrow> bool" where
  "IsError er code =
     (case er of
        None \<Rightarrow> False
      | Some x \<Rightarrow>
          (case errors_As x of
             None \<Rightarrow> False
           | Some e \<Rightarrow> (case e of None \<Rightarrow> False | Some pe \<Rightarrow> Code pe = code)))"

text \<open>
  The error chain (in Go's newer words, the error tree) of a non-nil error: the error
  itself, then the chains of what it wraps, in order; that is, every error of the tree,
  depth first.
\<close>

fun chain :: "error \<Rightarrow> error list"
  and chain_each :: "error list \<Rightarrow> error list" where
  "chain (PgErrorPtr p) = [PgErrorPtr p]"
| "chain (ErrorString s) = [ErrorString s]"
| "chain (WrapError s e) = WrapError s e # chain e"
| "chain (JoinError es) = JoinError es # chain_each es"
| "chain (CustomError s a es) = CustomError s a es # chain_each es"
| "chain_each [] = []"
| "chain_each (e # es) = chain e @ chain_each es"

text \<open>
  The database error marker one error of the chain offers: itself, when it is a
  \<^verbatim>\<open>*pgconn.PgError\<close> (nil pointer or not), or what its \<^verbatim>\<open>As\<close> method stores. The markers
  of an error are those of its chain, in the order of the chain.
\<close>

fun marker :: "error \<Rightarrow> PgError option list" where
  "marker (PgErrorPtr p) = [p]"
| "marker (CustomError s (Some p) es) = [p]"
| "marker e = []"

definition markers :: "error \<Rightarrow> PgError option list" where
  "markers x = concat (map marker (chain x))"

fun first_of :: "'a list \<Rightarrow> 'a option" where
  "first_of [] = None"
| "first_of (p # ps) = Some p"

text \<open>
  A plain chain: every error has at most an \<^verbatim>\<open>Unwrap() error\<close> and no \<^verbatim>\<open>As\<close> method, as
  the errors of the driver and of \<^verbatim>\<open>fmt.Errorf\<close> with one \<^verbatim>\<open>%w\<close> are.
\<close>

fun plain_chain :: "error \<Rightarrow> bool" where
  "plain_chain (PgErrorPtr p) = True"
| "plain_chain (ErrorString s) = True"
| "plain_chain (WrapError s e) = plain_chain e"
| "plain_chain (JoinError es) = False"
| "plain_chain (CustomError s a es) = False"

text \<open>Two markers of PostgreSQL, for concrete runs.\<close>

definition unique_violation :: PgError where
  "unique_violation = \<lparr>Severity = ''ERROR'', Code = ''23505'', Message = ''duplicate key value''\<rparr>"

definition serialization_failure :: PgError where
  "serialization_failure = \<lparr>Severity = ''ERROR'', Code = ''40001'', Message = ''could not serialize access''\<rparr>"

section \<open>An in-memory driver\<close>

text \<open>
  A fake of the driver for concrete runs: \<^verbatim>\<open>BeginTx\<close>, \<^verbatim>\<open>Commit\<close>, \<^verbatim>\<open>Rollback\<close> and
  \<^verbatim>\<open>Query\<close> answer the given errors. As pgx does, \<^verbatim>\<open>Query\<close> always answers a cursor,
  which carries the error when there is one.
\<close>

definition fake_driver :: "error option \<Rightarrow> error option \<Rightarrow> error option \<Rightarrow> error option \<Rightarrow> driver" where
  "fake_driver begin_err commit_err rollback_err query_err =
     \<lparr>BeginTx_answer = (\<lambda>w opts. (pgx_Tx (length w), begin_err)),
      Exec_answer = (\<lambda>w t sql args. (Some ''INSERT 0 1'', None)),
      Query_answer = (\<lambda>w t sql args. (Some (pgx_Rows (length w)), query_err)),
      QueryRow_answer = (\<lambda>w t sql args. Some (pgx_Row (length w))),
      Commit_answer = (\<lambda>w t. commit_err),
      Rollback_answer = (\<lambda>w t. rollback_err),
      Scan_answer = (\<lambda>w r targets st. (st, None))\<rparr>"

text \<open>A translator for concrete runs: it fails on the empty statement.\<close>

definition fake_translate :: translator where
  "fake_translate sql = (if sql = [] then ([], Some (ErrorString ''empty statement'')) else (sql, None))"

text \<open>
  Units of work for concrete runs (scenarios A and B of the spec): one \<^verbatim>\<open>Exec\<close>, whose
  error is returned if it fails, and then the given end: return \<open>result\<close>, or panic.
\<close>

definition insert_stmt :: StatementBuilder where
  "insert_stmt = StatementBuilder (''INSERT INTO t VALUES (?)'', [IntV 1], None)"

definition exec_then_return :: "error option \<Rightarrow> unit_of_work" where
  "exec_then_return result =
     CallExec insert_stmt (\<lambda>r. case snd r of Some e \<Rightarrow> Return (Some e) | None \<Rightarrow> Return result)"

definition exec_then_panic :: "val \<Rightarrow> unit_of_work" where
  "exec_then_panic v = CallExec insert_stmt (\<lambda>r. Panic v)"

definition select_stmt :: StatementBuilder where
  "select_stmt = StatementBuilder (''SELECT a FROM t WHERE b = ?'', [IntV 7], None)"

text \<open>Scenario C of the spec: a builder whose \<^verbatim>\<open>ToSQL\<close> fails with \<^verbatim>\<open>ErrBuild\<close>.\<close>

definition ErrBuild :: error where
  "ErrBuild = ErrorString ''build failed''"

definition failing_stmt :: StatementBuilder where
  "failing_stmt = StatementBuilder ([], [], Some ErrBuild)"

text \<open>A builder whose SQL the translator \<open>fake_translate\<close> refuses.\<close>

definition empty_stmt :: StatementBuilder where
  "empty_stmt = StatementBuilder ([], [], None)"

section \<open>What a unit of work can do to the trace\<close>

text \<open>
  A unit of work only adds events to the trace, and none of them is a commit or a
  rollback: the interface \<^verbatim>\<open>Tx\<close> has no such method.
\<close>

lemma run_appends:
  "run translate d h fn (st, w) = (out, (st', w')) \<Longrightarrow>
     \<exists>mid. w' = w @ mid \<and> (\<forall>t. EvCommit t \<notin> set mid \<and> EvRollback t \<notin> set mid)"
proof (induction fn arbitrary: st w out st' w')
  case (Return e)
  then show ?case by simp
next
  case (Panic v)
  then show ?case by simp
next
  case (CallExec qb k)
  then show ?case
    apply (simp add: Exec_def pgx_Exec_def split: prod.splits option.splits)
      apply fastforce+
    done
next
  case (CallQuery qb k)
  then show ?case
    apply (simp add: Query_def pgx_Query_def split: prod.splits option.splits)
      apply fastforce+
    done
next
  case (CallQueryRow qb k)
  then show ?case
    apply (simp add: QueryRow_def pgx_QueryRow_def split: prod.splits option.splits)
      apply fastforce+
    done
next
  case (CallScan r targets k)
  show ?case
  proof (cases r)
    case (RowError e)
    with CallScan show ?thesis by fastforce
  next
    case (PgxRow r')
    with CallScan show ?thesis
      apply (simp add: pgx_Row_Scan_def split: prod.splits)
      apply fastforce
      done
  qed
qed

lemma Tx_begun:
  "BeginTx_answer d w Tx_options = (t, None) \<Longrightarrow>
     Tx execute d fn (st, w) = execute (pgxTx t) fn (st, w @ [EvBeginTx Tx_options])"
  by (simp add: Tx_def pool_BeginTx_def)

lemma txExecute_trace:
  assumes "txExecute translate d h fn (st, w) = (out, (st', w'))"
  shows "\<exists>mid fin. w' = w @ mid @ [fin] \<and> (fin = EvCommit (tx h) \<or> fin = EvRollback (tx h)) \<and>
           (\<forall>t. EvCommit t \<notin> set mid \<and> EvRollback t \<notin> set mid)"
proof -
  obtain o1 st1 w1 where r: "run translate d h fn (st, w) = (o1, (st1, w1))"
    by (metis prod.exhaust)
  from run_appends [OF r] obtain mid where
    m: "w1 = w @ mid" "\<forall>t. EvCommit t \<notin> set mid \<and> EvRollback t \<notin> set mid"
    by blast
  from assms r have "w' = w1 @ [EvCommit (tx h)] \<or> w' = w1 @ [EvRollback (tx h)]"
    by (auto simp: txExecute_def pgx_Commit_def pgx_Rollback_def split: outcome.splits option.splits)
  with m show ?thesis by auto
qed

section \<open>The transaction protocol\<close>

text \<open>
  C1. Whenever \<^verbatim>\<open>Pool.Tx\<close> has begun its transaction \<open>t\<close>, the events the invocation adds
  to the trace hold exactly one event that ends \<open>t\<close>: one commit and no rollback, or one
  rollback and no commit; never both, never neither. This holds however the unit of work
  ends (nil, an error, a panic). The trace before the call is kept as it was.
\<close>

theorem Tx_terminates_exactly_once:
  assumes "BeginTx_answer d w Tx_options = (t, None)"
    and "Tx (txExecute translate d) d fn (st, w) = (out, (st', w'))"
  shows "take (length w) w' = w \<and>
         ((commits t (added w w') = 1 \<and> rollbacks t (added w w') = 0) \<or>
          (commits t (added w w') = 0 \<and> rollbacks t (added w w') = 1))"
proof -
  from assms have e: "txExecute translate d (pgxTx t) fn (st, w @ [EvBeginTx Tx_options]) = (out, (st', w'))"
    by (simp add: Tx_begun)
  from txExecute_trace [OF e] obtain mid fin where
    m: "w' = (w @ [EvBeginTx Tx_options]) @ mid @ [fin]" "fin = EvCommit t \<or> fin = EvRollback t"
       "\<forall>t. EvCommit t \<notin> set mid \<and> EvRollback t \<notin> set mid"
    by auto
  then show ?thesis
    by (auto simp: commits_def rollbacks_def added_def)
qed

theorem Tx_terminates_exactly_once_witness:
  "BeginTx_answer (fake_driver None None None None) [] Tx_options = (pgx_Tx 0, None) \<and>
   Tx (txExecute fake_translate (fake_driver None None None None)) (fake_driver None None None None)
      (exec_then_return None) (Map.empty, [])
     = (Returned None,
        (Map.empty, [EvBeginTx Tx_options, EvExec (pgx_Tx 0) ''INSERT INTO t VALUES (?)'' [IntV 1], EvCommit (pgx_Tx 0)])) \<and>
   commits (pgx_Tx 0)
     (added [] [EvBeginTx Tx_options, EvExec (pgx_Tx 0) ''INSERT INTO t VALUES (?)'' [IntV 1], EvCommit (pgx_Tx 0)]) = 1 \<and>
   rollbacks (pgx_Tx 0)
     (added [] [EvBeginTx Tx_options, EvExec (pgx_Tx 0) ''INSERT INTO t VALUES (?)'' [IntV 1], EvCommit (pgx_Tx 0)]) = 0"
proof -
  let ?d = "fake_driver None None None None"
  let ?w' = "[EvBeginTx Tx_options, EvExec (pgx_Tx 0) ''INSERT INTO t VALUES (?)'' [IntV 1], EvCommit (pgx_Tx 0)]"
  have b: "BeginTx_answer ?d [] Tx_options = (pgx_Tx 0, None)"
    by (simp add: fake_driver_def)
  have r: "Tx (txExecute fake_translate ?d) ?d (exec_then_return None) (Map.empty, []) = (Returned None, (Map.empty, ?w'))"
    by (simp add: Tx_def pool_BeginTx_def txExecute_def exec_then_return_def insert_stmt_def Exec_def
        fake_translate_def pgx_Exec_def pgx_Commit_def fake_driver_def)
  have c: "rollbacks (pgx_Tx 0) (added [] ?w') = 0"
    by (simp add: rollbacks_def added_def)
  from Tx_terminates_exactly_once [OF b r] b r c show ?thesis
    by simp
qed

text \<open>
  C2. When the transaction is begun and the unit of work returns a non-nil error \<open>e1\<close>,
  \<^verbatim>\<open>Tx\<close> issues a rollback right after the unit of work; if the rollback fails with \<open>e2\<close>,
  \<^verbatim>\<open>Tx\<close> returns \<open>e2\<close> (not \<open>e1\<close>); if the rollback succeeds, \<^verbatim>\<open>Tx\<close> returns \<open>e1\<close>.
\<close>

theorem Tx_fn_error_rolls_back:
  assumes "BeginTx_answer d w Tx_options = (t, None)"
    and "run translate d (pgxTx t) fn (st, w @ [EvBeginTx Tx_options]) = (Returned (Some e1), (st1, w1))"
  shows "snd (Tx (txExecute translate d) d fn (st, w)) = (st1, w1 @ [EvRollback t]) \<and>
         (\<forall>e2. Rollback_answer d w1 t = Some e2 \<longrightarrow>
                fst (Tx (txExecute translate d) d fn (st, w)) = Returned (Some e2)) \<and>
         (Rollback_answer d w1 t = None \<longrightarrow>
                fst (Tx (txExecute translate d) d fn (st, w)) = Returned (Some e1))"
  using assms by (simp add: Tx_begun txExecute_def pgx_Rollback_def split: option.splits)

theorem Tx_fn_error_rolls_back_witness:
  "BeginTx_answer (fake_driver None None (Some (ErrorString ''rollback failed'')) None) [] Tx_options = (pgx_Tx 0, None) \<and>
   fst (run fake_translate (fake_driver None None (Some (ErrorString ''rollback failed'')) None) (pgxTx (pgx_Tx 0))
          (exec_then_return (Some (ErrorString ''abort''))) (Map.empty, [EvBeginTx Tx_options]))
     = Returned (Some (ErrorString ''abort'')) \<and>
   fst (Tx (txExecute fake_translate (fake_driver None None (Some (ErrorString ''rollback failed'')) None))
          (fake_driver None None (Some (ErrorString ''rollback failed'')) None)
          (exec_then_return (Some (ErrorString ''abort''))) (Map.empty, []))
     = Returned (Some (ErrorString ''rollback failed''))"
proof -
  let ?d = "fake_driver None None (Some (ErrorString ''rollback failed'')) None"
  let ?w1 = "[EvBeginTx Tx_options, EvExec (pgx_Tx 0) ''INSERT INTO t VALUES (?)'' [IntV 1]]"
  have b: "BeginTx_answer ?d [] Tx_options = (pgx_Tx 0, None)"
    by (simp add: fake_driver_def)
  have r: "run fake_translate ?d (pgxTx (pgx_Tx 0)) (exec_then_return (Some (ErrorString ''abort'')))
             (Map.empty, [] @ [EvBeginTx Tx_options]) = (Returned (Some (ErrorString ''abort'')), (Map.empty, ?w1))"
    by (simp add: exec_then_return_def insert_stmt_def Exec_def fake_translate_def pgx_Exec_def fake_driver_def)
  have a: "Rollback_answer ?d ?w1 (pgx_Tx 0) = Some (ErrorString ''rollback failed'')"
    by (simp add: fake_driver_def)
  from Tx_fn_error_rolls_back [OF b r] a b r show ?thesis
    by simp
qed

text \<open>
  C3. When the transaction is begun and the unit of work returns nil, \<^verbatim>\<open>Tx\<close> issues a
  commit right after the unit of work; if the commit fails, \<^verbatim>\<open>Tx\<close> returns the commit
  error; if it succeeds, \<^verbatim>\<open>Tx\<close> returns nil.
\<close>

theorem Tx_fn_nil_commits:
  assumes "BeginTx_answer d w Tx_options = (t, None)"
    and "run translate d (pgxTx t) fn (st, w @ [EvBeginTx Tx_options]) = (Returned None, (st1, w1))"
  shows "snd (Tx (txExecute translate d) d fn (st, w)) = (st1, w1 @ [EvCommit t]) \<and>
         (\<forall>e3. Commit_answer d w1 t = Some e3 \<longrightarrow>
                fst (Tx (txExecute translate d) d fn (st, w)) = Returned (Some e3)) \<and>
         (Commit_answer d w1 t = None \<longrightarrow>
                fst (Tx (txExecute translate d) d fn (st, w)) = Returned None)"
  using assms by (simp add: Tx_begun txExecute_def pgx_Commit_def split: option.splits)

theorem Tx_fn_nil_commits_witness:
  "BeginTx_answer (fake_driver None (Some (ErrorString ''commit failed'')) None None) [] Tx_options = (pgx_Tx 0, None) \<and>
   fst (run fake_translate (fake_driver None (Some (ErrorString ''commit failed'')) None None) (pgxTx (pgx_Tx 0))
          (exec_then_return None) (Map.empty, [EvBeginTx Tx_options]))
     = Returned None \<and>
   Tx (txExecute fake_translate (fake_driver None (Some (ErrorString ''commit failed'')) None None))
      (fake_driver None (Some (ErrorString ''commit failed'')) None None)
      (exec_then_return None) (Map.empty, [])
     = (Returned (Some (ErrorString ''commit failed'')),
        (Map.empty, [EvBeginTx Tx_options, EvExec (pgx_Tx 0) ''INSERT INTO t VALUES (?)'' [IntV 1], EvCommit (pgx_Tx 0)]))"
proof -
  let ?d = "fake_driver None (Some (ErrorString ''commit failed'')) None None"
  let ?w1 = "[EvBeginTx Tx_options, EvExec (pgx_Tx 0) ''INSERT INTO t VALUES (?)'' [IntV 1]]"
  have b: "BeginTx_answer ?d [] Tx_options = (pgx_Tx 0, None)"
    by (simp add: fake_driver_def)
  have r: "run fake_translate ?d (pgxTx (pgx_Tx 0)) (exec_then_return None)
             (Map.empty, [] @ [EvBeginTx Tx_options]) = (Returned None, (Map.empty, ?w1))"
    by (simp add: exec_then_return_def insert_stmt_def Exec_def fake_translate_def pgx_Exec_def fake_driver_def)
  have a: "Commit_answer ?d ?w1 (pgx_Tx 0) = Some (ErrorString ''commit failed'')"
    by (simp add: fake_driver_def)
  from Tx_fn_nil_commits [OF b r] a b r show ?thesis
    by (simp add: prod_eq_iff)
qed

text \<open>
  C4. When the transaction is begun and the unit of work panics with \<open>v\<close>, \<^verbatim>\<open>Tx\<close> issues a
  rollback right after the unit of work and then ends with the same panic \<open>v\<close>, whatever
  the rollback answered: the panic is neither suppressed nor turned into an error value.
  The invocation issues no commit, so nothing of the work is committed.
\<close>

theorem Tx_fn_panic_rolls_back:
  assumes "BeginTx_answer d w Tx_options = (t, None)"
    and "run translate d (pgxTx t) fn (st, w @ [EvBeginTx Tx_options]) = (Panicked v, (st1, w1))"
  shows "Tx (txExecute translate d) d fn (st, w) = (Panicked v, (st1, w1 @ [EvRollback t])) \<and>
         commits t (added w (w1 @ [EvRollback t])) = 0 \<and>
         rollbacks t (added w (w1 @ [EvRollback t])) = 1"
proof -
  from run_appends [OF assms(2)] obtain mid where
    m: "w1 = (w @ [EvBeginTx Tx_options]) @ mid" "\<forall>t. EvCommit t \<notin> set mid \<and> EvRollback t \<notin> set mid"
    by blast
  have "Tx (txExecute translate d) d fn (st, w) = (Panicked v, (st1, w1 @ [EvRollback t]))"
    using assms by (simp add: Tx_begun txExecute_def pgx_Rollback_def)
  with m show ?thesis
    by (simp add: commits_def rollbacks_def added_def)
qed

theorem Tx_fn_panic_rolls_back_witness:
  "BeginTx_answer (fake_driver None None (Some (ErrorString ''rollback failed'')) None) [] Tx_options = (pgx_Tx 0, None) \<and>
   Tx (txExecute fake_translate (fake_driver None None (Some (ErrorString ''rollback failed'')) None))
      (fake_driver None None (Some (ErrorString ''rollback failed'')) None)
      (exec_then_panic (StrV ''boom'')) (Map.empty, [])
     = (Panicked (StrV ''boom''),
        (Map.empty, [EvBeginTx Tx_options, EvExec (pgx_Tx 0) ''INSERT INTO t VALUES (?)'' [IntV 1], EvRollback (pgx_Tx 0)]))"
proof -
  let ?d = "fake_driver None None (Some (ErrorString ''rollback failed'')) None"
  let ?w1 = "[EvBeginTx Tx_options, EvExec (pgx_Tx 0) ''INSERT INTO t VALUES (?)'' [IntV 1]]"
  have b: "BeginTx_answer ?d [] Tx_options = (pgx_Tx 0, None)"
    by (simp add: fake_driver_def)
  have r: "run fake_translate ?d (pgxTx (pgx_Tx 0)) (exec_then_panic (StrV ''boom''))
             (Map.empty, [] @ [EvBeginTx Tx_options]) = (Panicked (StrV ''boom''), (Map.empty, ?w1))"
    by (simp add: exec_then_panic_def insert_stmt_def Exec_def fake_translate_def pgx_Exec_def fake_driver_def)
  from Tx_fn_panic_rolls_back [OF b r] b show ?thesis
    by simp
qed

text \<open>
  C5. \<^verbatim>\<open>Pool.Tx\<close> begins its transaction with isolation level serializable: the one call
  it makes itself is \<^verbatim>\<open>BeginTx\<close> with these options. If begin fails with \<open>e0\<close>, \<^verbatim>\<open>Tx\<close>
  returns \<open>e0\<close> and nothing else reaches the driver; no handle is made and neither the
  executor nor the unit of work runs, so the result is the same for any other executor
  and unit of work. If begin succeeds, the executor runs on a handle of the transaction
  begun.
\<close>

theorem Tx_begin_serializable:
  "(BeginTx_answer d w \<lparr>IsoLevel = Serializable, AccessMode = NoAccessMode, DeferrableMode = NoDeferrableMode\<rparr>
      = (t, Some e0) \<longrightarrow>
      Tx execute d fn (st, w) =
        (Returned (Some e0),
         (st, w @ [EvBeginTx \<lparr>IsoLevel = Serializable, AccessMode = NoAccessMode, DeferrableMode = NoDeferrableMode\<rparr>])) \<and>
      Tx execute d fn (st, w) = Tx execute' d fn' (st, w)) \<and>
   (BeginTx_answer d w \<lparr>IsoLevel = Serializable, AccessMode = NoAccessMode, DeferrableMode = NoDeferrableMode\<rparr>
      = (t, None) \<longrightarrow>
      Tx execute d fn (st, w) =
        execute (pgxTx t) fn
          (st, w @ [EvBeginTx \<lparr>IsoLevel = Serializable, AccessMode = NoAccessMode, DeferrableMode = NoDeferrableMode\<rparr>]))"
  by (simp add: Tx_def pool_BeginTx_def Tx_options_def)

theorem Tx_begin_serializable_witness:
  "BeginTx_answer (fake_driver (Some (ErrorString ''pool closed'')) None None None) []
      \<lparr>IsoLevel = Serializable, AccessMode = NoAccessMode, DeferrableMode = NoDeferrableMode\<rparr>
     = (pgx_Tx 0, Some (ErrorString ''pool closed'')) \<and>
   Tx (txExecute fake_translate (fake_driver (Some (ErrorString ''pool closed'')) None None None))
      (fake_driver (Some (ErrorString ''pool closed'')) None None None) (exec_then_return None) (Map.empty, [])
     = (Returned (Some (ErrorString ''pool closed'')),
        (Map.empty, [EvBeginTx \<lparr>IsoLevel = Serializable, AccessMode = NoAccessMode, DeferrableMode = NoDeferrableMode\<rparr>]))"
proof -
  let ?d = "fake_driver (Some (ErrorString ''pool closed'')) None None None"
  have b: "BeginTx_answer ?d [] \<lparr>IsoLevel = Serializable, AccessMode = NoAccessMode, DeferrableMode = NoDeferrableMode\<rparr>
             = (pgx_Tx 0, Some (ErrorString ''pool closed''))"
    by (simp add: fake_driver_def)
  from Tx_begin_serializable [of ?d "[]" "pgx_Tx 0" "ErrorString ''pool closed''"
      "txExecute fake_translate ?d" "exec_then_return None" Map.empty] b
  show ?thesis by simp
qed

section \<open>The handle's short circuit\<close>

text \<open>
  C6. When the builder's \<^verbatim>\<open>ToSQL\<close> returns a non-nil error \<open>e\<close>, or the builder succeeds
  and the placeholder translator fails with \<open>e\<close>: \<^verbatim>\<open>Exec\<close> and \<^verbatim>\<open>Query\<close> return \<open>e\<close> (with a
  nil result) and leave the trace as it was, so the driver is not contacted; \<^verbatim>\<open>QueryRow\<close>
  returns a non-nil row, the \<^verbatim>\<open>rowError\<close> of \<open>e\<close>, again with the trace unchanged; and
  \<^verbatim>\<open>Scan\<close> on that row returns \<open>e\<close>, at any later time, changing neither the trace nor
  the target slots.
\<close>

theorem build_error_short_circuits:
  assumes "ToSQL qb = (sql, args, Some e) \<or>
           (ToSQL qb = (sql, args, None) \<and> translate sql = (sql', Some e))"
  shows "Exec translate d h qb w = ((None, Some e), w) \<and>
         Query translate d h qb w = ((None, Some e), w) \<and>
         QueryRow translate d h qb w = (Some (RowError (rowError (Some e))), w) \<and>
         Scan d (RowError (rowError (Some e))) targets (st, w2) = (Some e, (st, w2))"
  using assms by (auto simp: Exec_def Query_def QueryRow_def rowError_Scan_def)

theorem build_error_short_circuits_witness:
  "ToSQL failing_stmt = ([], [], Some ErrBuild) \<and>
   Exec fake_translate (fake_driver None None None None) (pgxTx (pgx_Tx 0)) failing_stmt [] = ((None, Some ErrBuild), []) \<and>
   Query fake_translate (fake_driver None None None None) (pgxTx (pgx_Tx 0)) failing_stmt [] = ((None, Some ErrBuild), []) \<and>
   QueryRow fake_translate (fake_driver None None None None) (pgxTx (pgx_Tx 0)) failing_stmt []
     = (Some (RowError (rowError (Some ErrBuild))), []) \<and>
   Scan (fake_driver None None None None) (RowError (rowError (Some ErrBuild))) [0] (Map.empty, [])
     = (Some ErrBuild, (Map.empty, [])) \<and>
   ToSQL empty_stmt = ([], [], None) \<and>
   fake_translate [] = ([], Some (ErrorString ''empty statement'')) \<and>
   Exec fake_translate (fake_driver None None None None) (pgxTx (pgx_Tx 0)) empty_stmt []
     = ((None, Some (ErrorString ''empty statement'')), [])"
proof -
  have a: "ToSQL failing_stmt = ([], [], Some ErrBuild) \<or>
           (ToSQL failing_stmt = ([], [], None) \<and> fake_translate [] = ([], Some ErrBuild))"
    by (simp add: failing_stmt_def)
  have b: "ToSQL empty_stmt = ([], [], Some (ErrorString ''empty statement'')) \<or>
           (ToSQL empty_stmt = ([], [], None) \<and> fake_translate [] = ([], Some (ErrorString ''empty statement'')))"
    by (simp add: empty_stmt_def fake_translate_def)
  from build_error_short_circuits [where translate = fake_translate and qb = failing_stmt and sql = "[]"
         and args = "[]" and sql' = "[]" and e = ErrBuild and d = "fake_driver None None None None"
         and h = "pgxTx (pgx_Tx 0)" and w = "[]" and targets = "[0]" and st = Map.empty and ?w2.0 = "[]", OF a]
       build_error_short_circuits [where translate = fake_translate and qb = empty_stmt and sql = "[]"
         and args = "[]" and sql' = "[]" and e = "ErrorString ''empty statement''"
         and d = "fake_driver None None None None"
         and h = "pgxTx (pgx_Tx 0)" and w = "[]" and targets = "[0]" and st = Map.empty and ?w2.0 = "[]", OF b]
  show ?thesis
    by (simp add: failing_stmt_def empty_stmt_def fake_translate_def)
qed

text \<open>
  C7, as the spec states it, fails: \<^verbatim>\<open>Query\<close> returns what the driver's \<^verbatim>\<open>Query\<close> returns
  (line 103), and the driver may answer a non-nil cursor together with a non-nil error
  (pgx answers a cursor in an error state). Here the driver answers the cursor
  \<open>pgx_Rows 0\<close> with the error "tx is closed", and \<^verbatim>\<open>Query\<close> returns both.
\<close>

theorem Query_error_with_rows_counterexample:
  "Query fake_translate (fake_driver None None None (Some (ErrorString ''tx is closed''))) (pgxTx (pgx_Tx 0)) select_stmt []
     = ((Some (pgx_Rows 0), Some (ErrorString ''tx is closed'')),
        [EvQuery (pgx_Tx 0) ''SELECT a FROM t WHERE b = ?'' [IntV 7]])"
  by (simp add: Query_def select_stmt_def fake_translate_def pgx_Query_def fake_driver_def)

text \<open>
  C7, amended. When \<^verbatim>\<open>Query\<close> returns a non-nil error, either the driver was not contacted
  (the error is the builder's or the translator's) and the returned \<^verbatim>\<open>Rows\<close> is nil, or
  builder and translator succeeded, the driver was called once, and the \<^verbatim>\<open>Rows\<close> and the
  error are the driver's own answer, returned as they are.
\<close>

theorem Query_error_rows:
  assumes "Query translate d h qb w = ((rows, Some e), w')"
  shows "(w' = w \<and> rows = None) \<or>
         (\<exists>sql args sql'. ToSQL qb = (sql, args, None) \<and> translate sql = (sql', None) \<and>
            Query_answer d w (tx h) sql' args = (rows, Some e) \<and> w' = w @ [EvQuery (tx h) sql' args])"
  using assms by (auto simp: Query_def pgx_Query_def split: prod.splits option.splits)

theorem Query_error_rows_witness:
  "Query fake_translate (fake_driver None None None None) (pgxTx (pgx_Tx 0)) failing_stmt [EvBeginTx Tx_options]
     = ((None, Some ErrBuild), [EvBeginTx Tx_options]) \<and>
   ToSQL failing_stmt \<noteq> ([], [], None)"
proof -
  have q: "Query fake_translate (fake_driver None None None None) (pgxTx (pgx_Tx 0)) failing_stmt [EvBeginTx Tx_options]
     = ((None, Some ErrBuild), [EvBeginTx Tx_options])"
    by (simp add: Query_def failing_stmt_def)
  from Query_error_rows [OF q] q show ?thesis
    by (simp add: failing_stmt_def)
qed

section \<open>The sentinel row\<close>

text \<open>
  C10. For every error \<open>e\<close> a \<^verbatim>\<open>rowError\<close> carries and every list of targets, \<^verbatim>\<open>Scan\<close>
  returns exactly \<open>e\<close> and changes no target slot (nor the trace); and so does every one
  of any number of calls in a row: all of them return \<open>e\<close>, and the slots and the trace
  after the last call are those before the first.
\<close>

theorem rowError_Scan_always:
  "Scan d (RowError (rowError e)) targets (st, w) = (e, (st, w)) \<and>
   Scan_each d (RowError (rowError e)) tss (st, w) = (replicate (length tss) e, (st, w))"
proof -
  have "Scan_each d (RowError (rowError e)) tss (st, w) = (replicate (length tss) e, (st, w))"
    by (induction tss) (simp_all add: rowError_Scan_def)
  then show ?thesis by (simp add: rowError_Scan_def)
qed

theorem rowError_Scan_always_witness:
  "Scan_each (fake_driver None None None None) (RowError (rowError (Some ErrBuild))) [[0], [1, 2], []]
     ([0 \<mapsto> IntV 5], [EvBeginTx Tx_options])
     = ([Some ErrBuild, Some ErrBuild, Some ErrBuild], ([0 \<mapsto> IntV 5], [EvBeginTx Tx_options]))"
  using rowError_Scan_always [of "fake_driver None None None None" "Some ErrBuild" "[]" "[0 \<mapsto> IntV 5]"
      "[EvBeginTx Tx_options]" "[[0], [1, 2], []]"]
  by simp

section \<open>The error-code predicate\<close>

lemma first_of_append:
  "first_of (xs @ ys) = (case first_of xs of Some p \<Rightarrow> Some p | None \<Rightarrow> first_of ys)"
  by (cases xs) simp_all

lemma first_of_mem: "first_of xs = Some p \<Longrightarrow> p \<in> set xs"
  by (cases xs) auto

lemma first_of_short: "length xs \<le> 1 \<Longrightarrow> (p \<in> set xs) = (first_of xs = Some p)"
  by (cases xs) auto

text \<open>\<^verbatim>\<open>errors.As\<close> finds the first marker of the chain.\<close>

lemma errors_As_first:
  "errors_As x = first_of (concat (map marker (chain x)))"
  "errors_As_each xs = first_of (concat (map marker (chain_each xs)))"
proof (induction x and xs rule: errors_As_errors_As_each.induct)
  case (5 s a es)
  then show ?case by (cases a) simp_all
next
  case (7 e es)
  then show ?case by (simp add: first_of_append split: option.splits)
qed simp_all

lemma plain_chain_As:
  "plain_chain x \<Longrightarrow>
     (case errors_As x of None \<Rightarrow> False
      | Some e \<Rightarrow> (case e of None \<Rightarrow> False | Some pe \<Rightarrow> Code pe = code))
     = (\<exists>pe. PgErrorPtr (Some pe) \<in> set (chain x) \<and> Code pe = code)"
  by (induction x) (auto split: option.splits)

text \<open>
  C9, as the spec states it, fails on an error that holds two markers. In the joined
  error of a unique violation (23505) and a serialization failure (40001),
  \<^verbatim>\<open>errors.As\<close> stops at the first marker, so \<^verbatim>\<open>IsError\<close> with code 40001 is false,
  although the chain holds a marker whose code is 40001.
\<close>

theorem IsError_later_marker_counterexample:
  "\<not> IsError (Some (JoinError [PgErrorPtr (Some unique_violation), PgErrorPtr (Some serialization_failure)])) ''40001'' \<and>
   PgErrorPtr (Some serialization_failure)
     \<in> set (chain (JoinError [PgErrorPtr (Some unique_violation), PgErrorPtr (Some serialization_failure)])) \<and>
   Code serialization_failure = ''40001''"
  by (simp add: IsError_def unique_violation_def serialization_failure_def)

text \<open>
  C9, amended. \<^verbatim>\<open>IsError(err, code)\<close> is false for the nil error. For a non-nil error it
  is true exactly when the first marker of the error chain (the first
  \<^verbatim>\<open>*pgconn.PgError\<close> that \<^verbatim>\<open>errors.As\<close> comes upon, depth first, or that an \<^verbatim>\<open>As\<close> method
  on the way supplies) is not nil and has the code \<open>code\<close>. So a marker with that code
  among the markers of the chain is necessary; it is also sufficient when the chain
  offers at most one marker, and in particular on a plain chain, where \<^verbatim>\<open>IsError\<close> is
  true exactly when the chain holds a non-nil marker whose code equals \<open>code\<close>.
\<close>

theorem IsError_first_marker:
  "IsError None code = False \<and>
   IsError (Some x) code =
     (case first_of (markers x) of
        None \<Rightarrow> False
      | Some p \<Rightarrow> (case p of None \<Rightarrow> False | Some pe \<Rightarrow> Code pe = code)) \<and>
   (IsError (Some x) code \<longrightarrow> (\<exists>pe. Some pe \<in> set (markers x) \<and> Code pe = code)) \<and>
   (length (markers x) \<le> 1 \<longrightarrow>
      IsError (Some x) code = (\<exists>pe. Some pe \<in> set (markers x) \<and> Code pe = code)) \<and>
   (plain_chain x \<longrightarrow>
      IsError (Some x) code = (\<exists>pe. PgErrorPtr (Some pe) \<in> set (chain x) \<and> Code pe = code))"
proof -
  have a: "IsError (Some x) code =
     (case first_of (markers x) of
        None \<Rightarrow> False
      | Some p \<Rightarrow> (case p of None \<Rightarrow> False | Some pe \<Rightarrow> Code pe = code))"
    by (simp add: IsError_def errors_As_first(1) markers_def)
  have b: "IsError (Some x) code \<longrightarrow> (\<exists>pe. Some pe \<in> set (markers x) \<and> Code pe = code)"
    unfolding a by (auto split: option.splits dest: first_of_mem)
  have c: "length (markers x) \<le> 1 \<longrightarrow>
      IsError (Some x) code = (\<exists>pe. Some pe \<in> set (markers x) \<and> Code pe = code)"
    unfolding a by (auto simp: first_of_short split: option.splits)
  have d: "plain_chain x \<longrightarrow>
      IsError (Some x) code = (\<exists>pe. PgErrorPtr (Some pe) \<in> set (chain x) \<and> Code pe = code)"
    by (simp add: IsError_def plain_chain_As)
  from a b c d show ?thesis by (simp add: IsError_def)
qed

theorem IsError_first_marker_witness:
  "plain_chain (WrapError ''insert failed'' (PgErrorPtr (Some serialization_failure))) \<and>
   length (markers (WrapError ''insert failed'' (PgErrorPtr (Some serialization_failure)))) \<le> 1 \<and>
   IsError (Some (WrapError ''insert failed'' (PgErrorPtr (Some serialization_failure)))) ''40001'' \<and>
   \<not> IsError (Some (WrapError ''insert failed'' (PgErrorPtr (Some serialization_failure)))) ''23505'' \<and>
   \<not> IsError (Some (WrapError ''insert failed'' (PgErrorPtr None))) ''40001'' \<and>
   \<not> IsError (Some (ErrorString ''no rows in result set'')) ''40001'' \<and>
   IsError (Some (JoinError [ErrorString ''cleanup failed'', PgErrorPtr (Some unique_violation),
      PgErrorPtr (Some serialization_failure)])) ''23505'' \<and>
   IsError (Some (CustomError ''retryable'' (Some (Some serialization_failure))
      [PgErrorPtr (Some unique_violation)])) ''40001''"
  using IsError_first_marker [of "''40001''" "WrapError ''insert failed'' (PgErrorPtr (Some serialization_failure))"]
    IsError_first_marker [of "''23505''" "WrapError ''insert failed'' (PgErrorPtr (Some serialization_failure))"]
    IsError_first_marker [of "''40001''" "WrapError ''insert failed'' (PgErrorPtr None)"]
    IsError_first_marker [of "''40001''" "ErrorString ''no rows in result set''"]
    IsError_first_marker [of "''23505''" "JoinError [ErrorString ''cleanup failed'', PgErrorPtr (Some unique_violation),
      PgErrorPtr (Some serialization_failure)]"]
    IsError_first_marker [of "''40001''" "CustomError ''retryable'' (Some (Some serialization_failure))
      [PgErrorPtr (Some unique_violation)]"]
  by (simp add: markers_def unique_violation_def serialization_failure_def)

end
